theory Spec2Isabelle
  imports Main "HOL-Library.Word"
begin

unbundle bit_operations_syntax

section \<open>Strings, paths and encodings used by the job service\<close>

text \<open>
  Go strings and byte slices are sequences of bytes; both are modelled as \<open>string\<close>
  (a list of 8-bit characters). A UUID is modelled by its canonical textual form, the
  value of \<open>uuid.String()\<close>: the service only compares UUIDs and prints them.
\<close>

type_synonym uuid = string

definition broadcast_id :: uuid where
  "broadcast_id = ''ffffffff-ffff-ffff-ffff-ffffffffffff''"

definition uuid_Nil :: uuid where
  "uuid_Nil = ''00000000-0000-0000-0000-000000000000''"

text \<open>\<open>strings.Join(elems, sep)\<close>.\<close>

fun strings_Join :: "string list \<Rightarrow> string \<Rightarrow> string" where
  "strings_Join [] sep = []"
| "strings_Join [x] sep = x"
| "strings_Join (x # y # ys) sep = x @ sep @ strings_Join (y # ys) sep"

text \<open>Splitting a path at every separator (the components walked by \<open>filepath.Clean\<close>).\<close>

fun split_on :: "char \<Rightarrow> string \<Rightarrow> string list" where
  "split_on c [] = [[]]"
| "split_on c (x # xs) =
     (if x = c then [] # split_on c xs
      else (case split_on c xs of [] \<Rightarrow> [[x]] | w # ws \<Rightarrow> (x # w) # ws))"

text \<open>
  \<open>filepath.Clean\<close> on a Unix host: empty and \<open>.\<close> components are dropped, \<open>..\<close>
  removes the component before it (a rooted path drops a leading \<open>..\<close>, a relative one
  keeps it), and the empty result is \<open>.\<close>.
\<close>

definition clean_step :: "bool \<Rightarrow> string list \<Rightarrow> string \<Rightarrow> string list" where
  "clean_step rooted stack el =
     (if el = [] \<or> el = ''.'' then stack
      else if el = ''..'' then
        (if stack \<noteq> [] \<and> last stack \<noteq> ''..'' then butlast stack
         else if rooted then stack
         else stack @ [el])
      else stack @ [el])"

definition filepath_Clean :: "string \<Rightarrow> string" where
  "filepath_Clean path =
     (if path = [] then ''.''
      else
        let rooted = (hd path = CHR ''/'');
            stack = foldl (clean_step rooted) [] (split_on (CHR ''/'') path);
            out = (if rooted then ''/'' else []) @ strings_Join stack ''/''
        in if out = [] then ''.'' else out)"

text \<open>\<open>filepath.Join\<close>: leading empty elements are ignored, the rest is joined and cleaned.\<close>

definition filepath_Join :: "string list \<Rightarrow> string" where
  "filepath_Join elem =
     (case dropWhile (\<lambda>e. e = []) elem of
        [] \<Rightarrow> []
      | es \<Rightarrow> filepath_Clean (strings_Join es ''/''))"

text \<open>
  \<open>filepath.Split\<close>: the path is cut after its last separator; the second part is the
  file name (empty when the path ends with a separator).
\<close>

definition filepath_Split :: "string \<Rightarrow> string \<times> string" where
  "filepath_Split path =
     (let f = rev (takeWhile (\<lambda>c. c \<noteq> CHR ''/'') (rev path))
      in (take (length path - length f) path, f))"

text \<open>The directory holding a cleaned path (used by the file-system model below).\<close>

definition parent_dir :: "string \<Rightarrow> string" where
  "parent_dir path =
     (let d = fst (filepath_Split path)
      in if d = ''/'' then d else butlast d)"

subsection \<open>Base64, standard alphabet with padding\<close>

definition b64_alphabet :: string where
  "b64_alphabet = ''ABCDEFGHIJKLMNOPQRSTUVWXYZabcdefghijklmnopqrstuvwxyz0123456789+/''"

definition b64_char :: "nat \<Rightarrow> char" where
  "b64_char n = b64_alphabet ! n"

fun index_of :: "char \<Rightarrow> string \<Rightarrow> nat \<Rightarrow> nat option" where
  "index_of c [] n = None"
| "index_of c (x # xs) n = (if x = c then Some n else index_of c xs (Suc n))"

definition b64_index :: "char \<Rightarrow> nat option" where
  "b64_index c = index_of c b64_alphabet 0"

fun b64_enc :: "nat list \<Rightarrow> string" where
  "b64_enc [] = []"
| "b64_enc [a] = [b64_char (a div 4), b64_char ((a mod 4) * 16), CHR ''='', CHR ''='']"
| "b64_enc [a, b] =
     [b64_char (a div 4), b64_char ((a mod 4) * 16 + b div 16),
      b64_char ((b mod 16) * 4), CHR ''='']"
| "b64_enc (a # b # c # r) =
     [b64_char (a div 4), b64_char ((a mod 4) * 16 + b div 16),
      b64_char ((b mod 16) * 4 + c div 64), b64_char (c mod 64)] @ b64_enc r"

text \<open>\<open>base64.StdEncoding.EncodeToString\<close>.\<close>

definition base64_EncodeToString :: "string \<Rightarrow> string" where
  "base64_EncodeToString bs = b64_enc (map of_char bs)"

fun b64_dec :: "string \<Rightarrow> nat list option" where
  "b64_dec [] = Some []"
| "b64_dec [a, b, c, d] =
     (case (b64_index a, b64_index b) of
        (Some x, Some y) \<Rightarrow>
          (if c = CHR ''='' \<and> d = CHR ''='' then Some [x * 4 + y div 16]
           else (case b64_index c of
              None \<Rightarrow> None
            | Some z \<Rightarrow>
                (if d = CHR ''='' then Some [x * 4 + y div 16, (y mod 16) * 16 + z div 4]
                 else (case b64_index d of
                    None \<Rightarrow> None
                  | Some w \<Rightarrow>
                      Some [x * 4 + y div 16, (y mod 16) * 16 + z div 4, (z mod 4) * 64 + w]))))
      | _ \<Rightarrow> None)"
| "b64_dec (a # b # c # d # r) =
     (case (b64_index a, b64_index b, b64_index c, b64_index d) of
        (Some x, Some y, Some z, Some w) \<Rightarrow>
          (case b64_dec r of
             None \<Rightarrow> None
           | Some bs \<Rightarrow>
               Some ([x * 4 + y div 16, (y mod 16) * 16 + z div 4, (z mod 4) * 64 + w] @ bs))
      | _ \<Rightarrow> None)"
| "b64_dec _ = None"

text \<open>
  \<open>base64.StdEncoding.DecodeString\<close>: carriage returns and line feeds are skipped, padding
  is required and allowed in the last quantum only. \<open>None\<close> is the decoding error.
\<close>

definition base64_DecodeString :: "string \<Rightarrow> string option" where
  "base64_DecodeString s =
     map_option (map char_of)
       (b64_dec (filter (\<lambda>c. c \<noteq> CHR 0x0D \<and> c \<noteq> CHR 0x0A) s))"


section \<open>Jobs, payloads and server-side job information\<close>

text \<open>
  The job type tags of package \<open>jobs\<close>. \<open>UNSET\<close> is the zero value of the \<open>Type\<close>
  field of a freshly declared \<open>jobs.Job\<close>.
\<close>

datatype jobtype =
  UNSET | CMD | CONTROL | SHELLCODE | NATIVE | FILETRANSFER | SERVEROK | MODULE | SOCKS
  | RESULT | AGENTINFO

text \<open>
  The payload of a job is a Go interface value; a type assertion on it panics when the
  dynamic type is another one. Each payload struct is a constructor.
\<close>

datatype payload =
  NoPayload
  | Command (cmd_Command: string) (cmd_Args: "string list")
  | FileTransfer (ft_FileLocation: string) (ft_FileBlob: string) (ft_IsDownload: bool)
  | Shellcode (sc_Method: string) (sc_Bytes: string) (sc_PID: "32 word")
  | Socks (socks_ID: uuid) (socks_Index: int) (socks_Data: string) (socks_Close: bool)
  | Results (res_Stdout: string) (res_Stderr: string)
  | AgentInfo (ai_Data: string)

record Job =
  job_AgentID :: uuid
  job_ID :: string
  job_Token :: uuid
  job_Type :: jobtype
  job_Payload :: payload

datatype status = CREATED | SENT | RETURNED | COMPLETE | CANCELED | ACTIVE

text \<open>
  The command summary kept in a job's information record. The summary of a job type
  outside the builder's vocabulary is the \<open>%s %+v\<close> rendering of its type and payload,
  kept unformatted.
\<close>

datatype summary = Summary string | SummaryDefault jobtype payload

text \<open>Times are readings of the server clock; \<open>0\<close> is the zero \<open>time.Time\<close>.\<close>

record Info =
  info_id :: string
  info_agentID :: uuid
  info_jobType :: jobtype
  info_token :: uuid
  info_command :: summary
  info_status :: status
  info_created :: nat
  info_sent :: nat
  info_completed :: nat

section \<open>Errors, log lines and operator messages\<close>

text \<open>
  Every \<open>fmt.Errorf\<close> of the service is a constructor carrying the values that the
  message is formatted from; \<open>Panic\<close> is a Go run-time panic (an index out of range, a
  failed type assertion), which is not an error return.
\<close>

datatype error =
  ErrExpectedArgs string nat
  | ErrReadFile string
  | ErrReadType jobtype
  | ErrAtoi string
  | ErrInvalidJobType jobtype
  | ErrNoAgents
  | ErrBuildUnknownAgent uuid
  | ErrAgent uuid
  | ErrHandlerGetInfo string
  | ErrInvalidAgent string uuid
  | ErrCheckGetInfo string
  | ErrToken string uuid uuid uuid
  | ErrCompleted string uuid nat
  | ErrCanceled string uuid
  | ErrNotValidAgent uuid
  | ErrLocatingDir string
  | ErrDecoding
  | ErrWriting string
  | ErrTwo error error
  | ErrLog uuid
  | ErrUpdateAgentInfo uuid
  | ErrHandlerUpdateInfo string
  | ErrDuplicateInfo string
  | ErrNoInfo string
  | Panic string

text \<open>The texts written to agent logs, the operator broadcast and the console.\<close>

datatype message =
  Text string
  | MsgLoadingAssembly string string
  | MsgUploading string string string string
  | MsgDownloading string
  | MsgCreatedJob jobtype string summary
  | MsgResultsForJob string
  | MsgStdout string
  | MsgStderr string
  | MsgResultsJob string uuid nat
  | MsgResultsFor uuid nat
  | MsgDownloaded string nat uuid string
  | MsgInvalidAgent string uuid
  | MsgError error
  | MsgDebugNoToken jobtype error
  | MsgDefault

datatype level = Info | Note | Warn | Debug | Success | Plain

record UserMessage =
  um_Level :: level
  um_Time :: nat
  um_Message :: message

text \<open>A line of the result text returned to the operator by \<open>AddJobChannel\<close>.\<close>

datatype result_line =
  BroadcastHeader
  | CreatedFor string uuid nat

section \<open>The collaborators of the service\<close>

subsection \<open>Job repository\<close>

text \<open>
  Modelled from the spec: the in-memory job repository (package \<open>jobs/memory\<close>) and the
  methods of \<open>jobs.Info\<close> are not part of the sources. The repository holds the queued
  jobs in insertion order (each job names its agent) and the information records,
  looked up by their id.
\<close>

record Repository =
  repo_queue :: "Job list"
  repo_infos :: "Info list"

text \<open>Modelled from the spec: \<open>get_info(id)\<close> gives the record of that id or not-found.\<close>

definition GetInfo :: "Repository \<Rightarrow> string \<Rightarrow> error + Info" where
  "GetInfo r jid =
     (case find (\<lambda>i. info_id i = jid) (repo_infos r) of
        None \<Rightarrow> Inl (ErrNoInfo jid)
      | Some i \<Rightarrow> Inr i)"

text \<open>
  Modelled from the spec: \<open>add(job, info)\<close> inserts both and fails if \<open>info.id\<close> is
  already present.
\<close>

definition repo_Add :: "Repository \<Rightarrow> Job \<Rightarrow> Info \<Rightarrow> error + Repository" where
  "repo_Add r job info =
     (if info_id info \<in> set (map info_id (repo_infos r)) then Inl (ErrDuplicateInfo (info_id info))
      else Inr (r\<lparr>repo_queue := repo_queue r @ [job], repo_infos := repo_infos r @ [info]\<rparr>))"

fun replace_info :: "Info \<Rightarrow> Info list \<Rightarrow> Info list" where
  "replace_info n [] = []"
| "replace_info n (i # is) = (if info_id i = info_id n then n # is else i # replace_info n is)"

text \<open>Modelled from the spec: \<open>update_info(info)\<close> replaces by id and fails if the id is unknown.\<close>

definition UpdateInfo :: "Repository \<Rightarrow> Info \<Rightarrow> error + Repository" where
  "UpdateInfo r info =
     (if info_id info \<in> set (map info_id (repo_infos r))
      then Inr (r\<lparr>repo_infos := replace_info info (repo_infos r)\<rparr>)
      else Inl (ErrNoInfo (info_id info)))"

text \<open>
  Modelled from the spec: \<open>Complete\<close> moves a record to \<open>COMPLETE\<close> and stamps its
  completion time; \<open>Active\<close> moves it to \<open>ACTIVE\<close>.
\<close>

definition Complete :: "nat \<Rightarrow> Info \<Rightarrow> Info" where
  "Complete t i = i\<lparr>info_status := COMPLETE, info_completed := t\<rparr>"

definition Active :: "Info \<Rightarrow> Info" where
  "Active i = i\<lparr>info_status := ACTIVE\<rparr>"

subsection \<open>The state the service works on\<close>

text \<open>
  The state holds everything the service reads or changes: the repository; the agent
  directory (known agents in the order \<open>Agents()\<close> lists them, their logs and stored
  agent information); the operator broadcast; the jobs handed to the SOCKS client; the
  console; the file system (existing directories, and files with their content and
  permission bits); \<open>core.CurrentDir\<close> and \<open>core.Debug\<close>; the clock reading returned
  by \<open>time.Now()\<close>; and the random source from which \<open>jobs.NewInfo\<close> draws the id and
  token of a new record (\<open>rand n\<close> is the \<open>n\<close>-th draw, \<open>rand_ix\<close> counts the draws).
\<close>

record state =
  repo :: Repository
  agents :: "uuid list"
  agent_log :: "(uuid \<times> message) list"
  agent_info :: "(uuid \<times> string) list"
  broadcasts :: "UserMessage list"
  socks_in :: "Job list"
  console :: "message list"
  dirs :: "string list"
  files :: "string \<Rightarrow> (string \<times> nat) option"
  CurrentDir :: string
  DebugFlag :: bool
  now :: nat
  rand :: "nat \<Rightarrow> string \<times> uuid"
  rand_ix :: nat

subsection \<open>Agent directory, broadcast and file system\<close>

text \<open>
  Modelled from the spec: the agent service (package \<open>services/agent\<close>) is not part of
  the sources. \<open>Exist\<close> tells whether an agent is known, \<open>Agent\<close> gives a handle on a
  known agent (here its id), \<open>Log\<close> appends to the agent's log and \<open>UpdateAgentInfo\<close>
  stores the reported information; the last three fail on an unknown agent.
\<close>

definition Exist :: "state \<Rightarrow> uuid \<Rightarrow> bool" where
  "Exist s a = (a \<in> set (agents s))"

definition Agent :: "state \<Rightarrow> uuid \<Rightarrow> error + uuid" where
  "Agent s a = (if Exist s a then Inr a else Inl (ErrAgent a))"

definition agent_Log :: "uuid \<Rightarrow> message \<Rightarrow> state \<Rightarrow> state" where
  "agent_Log a m s = s\<lparr>agent_log := agent_log s @ [(a, m)]\<rparr>"

definition Log :: "state \<Rightarrow> uuid \<Rightarrow> message \<Rightarrow> state \<times> error option" where
  "Log s a m = (if Exist s a then (agent_Log a m s, None) else (s, Some (ErrLog a)))"

definition UpdateAgentInfo :: "state \<Rightarrow> uuid \<Rightarrow> string \<Rightarrow> state \<times> error option" where
  "UpdateAgentInfo s a d =
     (if Exist s a then (s\<lparr>agent_info := agent_info s @ [(a, d)]\<rparr>, None)
      else (s, Some (ErrUpdateAgentInfo a)))"

definition SendBroadcastMessage :: "level \<Rightarrow> message \<Rightarrow> state \<Rightarrow> state" where
  "SendBroadcastMessage l m s =
     s\<lparr>broadcasts := broadcasts s @ [\<lparr>um_Level = l, um_Time = now s, um_Message = m\<rparr>]\<rparr>"

text \<open>\<open>os.Stat\<close> finds a path that names a directory or a file.\<close>

definition path_exists :: "state \<Rightarrow> string \<Rightarrow> bool" where
  "path_exists s p = (p \<in> set (dirs s) \<or> files s p \<noteq> None)"

text \<open>\<open>ioutil.ReadFile\<close>: the content of an existing file.\<close>

definition ReadFile :: "state \<Rightarrow> string \<Rightarrow> string option" where
  "ReadFile s p = map_option fst (files s p)"

text \<open>
  \<open>ioutil.WriteFile(name, data, perm)\<close>: a directory cannot be written; an existing file
  is truncated and keeps its permission bits; a new file needs its directory to exist
  and gets \<open>perm\<close> (the process umask is taken to be zero). \<open>None\<close> is the I/O error.
\<close>

definition WriteFile :: "state \<Rightarrow> string \<Rightarrow> string \<Rightarrow> nat \<Rightarrow> state option" where
  "WriteFile s p d perm =
     (if p \<in> set (dirs s) then None
      else (case files s p of
              Some (old, m) \<Rightarrow> Some (s\<lparr>files := (files s)(p \<mapsto> (d, m))\<rparr>)
            | None \<Rightarrow>
                (if parent_dir p \<in> set (dirs s)
                 then Some (s\<lparr>files := (files s)(p \<mapsto> (d, perm))\<rparr>)
                 else None)))"

section \<open>Handling the jobs an agent returns\<close>

text \<open>
  \<open>checkJob\<close>: the agent is known, the job has an information record, the token is the
  recorded one and the job was neither completed nor canceled. \<open>None\<close> is \<open>nil\<close>.
\<close>

definition checkJob :: "state \<Rightarrow> Job \<Rightarrow> error option" where
  "checkJob s job =
     (if \<not> Exist s (job_AgentID job) then Some (ErrInvalidAgent (job_ID job) (job_AgentID job))
      else (case GetInfo (repo s) (job_ID job) of
              Inl e \<Rightarrow> Some (ErrCheckGetInfo (job_ID job))
            | Inr j \<Rightarrow>
                (if job_Token job \<noteq> info_token j
                 then Some (ErrToken (job_ID job) (job_AgentID job) (info_token j) (job_Token job))
                 else if info_status j = COMPLETE
                 then Some (ErrCompleted (job_ID job) (job_AgentID job) (info_completed j))
                 else if info_status j = CANCELED
                 then Some (ErrCanceled (job_ID job) (job_AgentID job))
                 else None)))"

text \<open>
  The error exits of \<open>fileTransfer\<close>: the error is logged against the agent and
  returned; if logging fails too, both errors are returned together.
\<close>

definition log_and_fail :: "state \<Rightarrow> uuid \<Rightarrow> error \<Rightarrow> state \<times> error option" where
  "log_and_fail s a e =
     (case Log s a (MsgError e) of
        (s', Some e2) \<Rightarrow> (s', Some (ErrTwo e e2))
      | (s', None) \<Rightarrow> (s', Some e))"

text \<open>The permission bits \<open>0600\<close> (octal) passed to \<open>ioutil.WriteFile\<close>.\<close>

definition perm_0600 :: nat where
  "perm_0600 = 6 * 64"

definition agentsDir :: "state \<Rightarrow> string" where
  "agentsDir s = filepath_Join [CurrentDir s, ''data'', ''agents'']"

definition fileTransfer :: "state \<Rightarrow> uuid \<Rightarrow> payload \<Rightarrow> state \<times> error option" where
  "fileTransfer s agentID p =
     (if \<not> Exist s agentID then (s, Some (ErrNotValidAgent agentID))
      else if ft_IsDownload p then
        (let f = snd (filepath_Split (ft_FileLocation p)) in
         if \<not> path_exists s (agentsDir s) then log_and_fail s agentID (ErrLocatingDir (agentsDir s))
         else
           let s1 = SendBroadcastMessage Success (MsgResultsFor agentID (now s)) s in
           (case base64_DecodeString (ft_FileBlob p) of
              None \<Rightarrow> log_and_fail s1 agentID ErrDecoding
            | Some downloadBlob \<Rightarrow>
                (let downloadFile = filepath_Join [agentsDir s, agentID, f] in
                 case WriteFile s1 downloadFile downloadBlob perm_0600 of
                   None \<Rightarrow> log_and_fail s1 agentID (ErrWriting (ft_FileLocation p))
                 | Some s2 \<Rightarrow>
                     (let successMessage =
                            MsgDownloaded (ft_FileLocation p) (length downloadBlob) agentID downloadFile;
                          s3 = SendBroadcastMessage Success successMessage s2
                      in Log s3 agentID successMessage))))
      else (s, None))"

text \<open>
  The \<open>switch job.Type\<close> of \<open>Handler\<close>. A payload of another dynamic type than the one
  asserted is a panic, raised after the effects that precede the assertion.
\<close>

definition dispatch :: "state \<Rightarrow> uuid \<Rightarrow> Job \<Rightarrow> state \<times> error option" where
  "dispatch s agent job =
     (case job_Type job of
        RESULT \<Rightarrow>
          (let s1 = agent_Log agent (MsgResultsForJob (job_ID job)) s;
               s2 = SendBroadcastMessage Note
                      (MsgResultsJob (job_ID job) (job_AgentID job) (now s)) s1
           in (case job_Payload job of
                 Results out err \<Rightarrow>
                   (let s3 = (if length out > 0
                              then SendBroadcastMessage Success (Text out)
                                     (agent_Log agent (MsgStdout out) s2)
                              else s2);
                        s4 = (if length err > 0
                              then SendBroadcastMessage Warn (Text err)
                                     (agent_Log agent (MsgStderr err) s3)
                              else s3)
                    in (s4, None))
               | _ \<Rightarrow> (s2, Some (Panic ''interface conversion''))))
      | AGENTINFO \<Rightarrow>
          (case job_Payload job of
             AgentInfo d \<Rightarrow> UpdateAgentInfo s (job_AgentID job) d
           | _ \<Rightarrow> (s, Some (Panic ''interface conversion'')))
      | FILETRANSFER \<Rightarrow>
          (case job_Payload job of
             FileTransfer l b d \<Rightarrow> fileTransfer s (job_AgentID job) (FileTransfer l b d)
           | _ \<Rightarrow> (s, Some (Panic ''interface conversion'')))
      | SOCKS \<Rightarrow> (s\<lparr>socks_in := socks_in s @ [job]\<rparr>, None)
      | _ \<Rightarrow> (s, None))"

text \<open>
  The status update that follows the dispatch: a SOCKS job becomes \<open>ACTIVE\<close>, or
  \<open>COMPLETE\<close> when its payload closes the connection; every other job becomes
  \<open>COMPLETE\<close>.
\<close>

definition advance :: "state \<Rightarrow> Job \<Rightarrow> Info \<Rightarrow> error + Info" where
  "advance s job jobInfo =
     (if job_Type job = SOCKS then
        (case job_Payload job of
           Socks c i d cl \<Rightarrow> Inr (if cl then Complete (now s) jobInfo else Active jobInfo)
         | _ \<Rightarrow> Inl (Panic ''interface conversion''))
      else Inr (Complete (now s) jobInfo))"

text \<open>
  The body of the loop of \<open>Handler\<close> for one job. The second component is \<open>Some e\<close>
  when the body returns the error \<open>e\<close> from \<open>Handler\<close>, and \<open>None\<close> when the loop goes on.
\<close>

definition Handler_job :: "state \<Rightarrow> Job \<Rightarrow> state \<times> error option" where
  "Handler_job s job =
     (if Exist s (job_AgentID job) then
        (case Agent s (job_AgentID job) of
           Inl e \<Rightarrow> (s, Some e)
         | Inr agent \<Rightarrow>
             (case GetInfo (repo s) (job_ID job) of
                Inl e \<Rightarrow> (s, Some (ErrHandlerGetInfo (job_ID job)))
              | Inr jobInfo \<Rightarrow>
                  (let err = checkJob s job in
                   if err \<noteq> None \<and> job_Type job \<noteq> RESULT then (s, err)
                   else
                     let s0 = (case err of
                                 Some e \<Rightarrow>
                                   (if DebugFlag s
                                    then s\<lparr>console := console s @ [MsgDebugNoToken (job_Type job) e]\<rparr>
                                    else s)
                               | None \<Rightarrow> s)
                     in (case dispatch s0 agent job of
                           (s1, Some e) \<Rightarrow> (s1, Some e)
                         | (s1, None) \<Rightarrow>
                             (case advance s1 job jobInfo of
                                Inl e \<Rightarrow> (s1, Some e)
                              | Inr jobInfo' \<Rightarrow>
                                  (case UpdateInfo (repo s1) jobInfo' of
                                     Inl e \<Rightarrow> (s1, Some (ErrHandlerUpdateInfo (job_ID job)))
                                   | Inr r \<Rightarrow> (s1\<lparr>repo := r\<rparr>, None)))))))
      else (SendBroadcastMessage Warn (MsgInvalidAgent (job_ID job) (job_AgentID job)) s, None))"

text \<open>\<open>Handler\<close>: the jobs of a batch in order, up to the first error returned.\<close>

fun Handler :: "state \<Rightarrow> Job list \<Rightarrow> state \<times> error option" where
  "Handler s [] = (s, None)"
| "Handler s (job # rest) =
     (case Handler_job s job of
        (s', Some e) \<Rightarrow> (s', Some e)
      | (s', None) \<Rightarrow> Handler s' rest)"


section \<open>Building jobs from operator commands\<close>

subsection \<open>Library functions used by the builder\<close>

text \<open>
  SHA-256 (package \<open>crypto/sha256\<close>, FIPS 180-4) on 32-bit words. \<open>sha256 bs\<close> is the
  value of \<open>fileHash.Sum(nil)\<close> after \<open>bs\<close> was written to a new hash: the 32 bytes of
  the digest. The round constants and the initial hash value are given in decimal.
\<close>

definition K256 :: "32 word list" where
  "K256 =
     [1116352408, 1899447441, 3049323471, 3921009573, 961987163, 1508970993, 2453635748,
      2870763221, 3624381080, 310598401, 607225278, 1426881987, 1925078388, 2162078206,
      2614888103, 3248222580, 3835390401, 4022224774, 264347078, 604807628, 770255983,
      1249150122, 1555081692, 1996064986, 2554220882, 2821834349, 2952996808, 3210313671,
      3336571891, 3584528711, 113926993, 338241895, 666307205, 773529912, 1294757372,
      1396182291, 1695183700, 1986661051, 2177026350, 2456956037, 2730485921, 2820302411,
      3259730800, 3345764771, 3516065817, 3600352804, 4094571909, 275423344, 430227734,
      506948616, 659060556, 883997877, 958139571, 1322822218, 1537002063, 1747873779,
      1955562222, 2024104815, 2227730452, 2361852424, 2428436474, 2756734187, 3204031479,
      3329325298]"

definition H256 :: "32 word list" where
  "H256 =
     [1779033703, 3144134277, 1013904242, 2773480762, 1359893119, 2600822924, 528734635,
      1541459225]"

definition rotr :: "nat \<Rightarrow> 32 word \<Rightarrow> 32 word" where
  "rotr n x = drop_bit n x OR push_bit (32 - n) x"

definition Ch :: "32 word \<Rightarrow> 32 word \<Rightarrow> 32 word \<Rightarrow> 32 word" where
  "Ch x y z = (x AND y) XOR (NOT x AND z)"

definition Maj :: "32 word \<Rightarrow> 32 word \<Rightarrow> 32 word \<Rightarrow> 32 word" where
  "Maj x y z = (x AND y) XOR (x AND z) XOR (y AND z)"

definition Sigma0 :: "32 word \<Rightarrow> 32 word" where
  "Sigma0 x = rotr 2 x XOR rotr 13 x XOR rotr 22 x"

definition Sigma1 :: "32 word \<Rightarrow> 32 word" where
  "Sigma1 x = rotr 6 x XOR rotr 11 x XOR rotr 25 x"

definition sigma0 :: "32 word \<Rightarrow> 32 word" where
  "sigma0 x = rotr 7 x XOR rotr 18 x XOR drop_bit 3 x"

definition sigma1 :: "32 word \<Rightarrow> 32 word" where
  "sigma1 x = rotr 17 x XOR rotr 19 x XOR drop_bit 10 x"

text \<open>The message followed by the bit \<open>1\<close>, zero bits, and its length in bits on 64 bits.\<close>

definition be_bytes :: "nat \<Rightarrow> nat \<Rightarrow> nat list" where
  "be_bytes k n = map (\<lambda>i. (n div 256 ^ (k - 1 - i)) mod 256) [0..<k]"

definition sha_pad :: "nat list \<Rightarrow> nat list" where
  "sha_pad m =
     m @ [128] @ replicate ((119 - length m mod 64) mod 64) 0 @ be_bytes 8 (8 * length m)"

fun be_words :: "nat list \<Rightarrow> 32 word list" where
  "be_words (a # b # c # d # r) =
     of_nat (((a * 256 + b) * 256 + c) * 256 + d) # be_words r"
| "be_words _ = []"

text \<open>The message schedule: the 16 words of the block extended to 64.\<close>

fun schedule :: "nat \<Rightarrow> 32 word list \<Rightarrow> 32 word list" where
  "schedule 0 w = w"
| "schedule (Suc n) w =
     (let t = length w
      in schedule n
           (w @ [sigma1 (w ! (t - 2)) + w ! (t - 7) + sigma0 (w ! (t - 15)) + w ! (t - 16)]))"

type_synonym sha_state =
  "32 word \<times> 32 word \<times> 32 word \<times> 32 word \<times> 32 word \<times> 32 word \<times> 32 word \<times> 32 word"

definition sha_round :: "sha_state \<Rightarrow> 32 word \<times> 32 word \<Rightarrow> sha_state" where
  "sha_round st kw =
     (case st of (a, b, c, d, e, f, g, h) \<Rightarrow>
        let t1 = h + Sigma1 e + Ch e f g + fst kw + snd kw;
            t2 = Sigma0 a + Maj a b c
        in (t1 + t2, a, b, c, d + t1, e, f, g))"

definition sha_block :: "sha_state \<Rightarrow> 32 word list \<Rightarrow> sha_state" where
  "sha_block st blk =
     (case (st, foldl sha_round st (zip K256 (schedule 48 blk))) of
        ((a, b, c, d, e, f, g, h), (a', b', c', d', e', f', g', h')) \<Rightarrow>
          (a + a', b + b', c + c', d + d', e + e', f + f', g + g', h + h'))"

fun sha_blocks :: "nat \<Rightarrow> sha_state \<Rightarrow> 32 word list \<Rightarrow> sha_state" where
  "sha_blocks 0 st ws = st"
| "sha_blocks (Suc n) st ws = sha_blocks n (sha_block st (take 16 ws)) (drop 16 ws)"

definition word_bytes :: "32 word \<Rightarrow> string" where
  "word_bytes w = map char_of (be_bytes 4 (unat w))"

definition sha256 :: "string \<Rightarrow> string" where
  "sha256 bs =
     (let ws = be_words (sha_pad (map of_char bs))
      in case sha_blocks (length ws div 16)
                (H256 ! 0, H256 ! 1, H256 ! 2, H256 ! 3, H256 ! 4, H256 ! 5, H256 ! 6, H256 ! 7) ws of
           (a, b, c, d, e, f, g, h) \<Rightarrow>
             word_bytes a @ word_bytes b @ word_bytes c @ word_bytes d @
             word_bytes e @ word_bytes f @ word_bytes g @ word_bytes h)"



text \<open>The rendering \<open>%d\<close> of an integer.\<close>

fun show_nat :: "nat \<Rightarrow> string" where
  "show_nat n =
     (if n < 10 then [char_of (48 + n)]
      else show_nat (n div 10) @ [char_of (48 + n mod 10)])"

declare show_nat.simps [simp del]

definition show_int :: "int \<Rightarrow> string" where
  "show_int i = (if i < 0 then CHR ''-'' # show_nat (nat (- i)) else show_nat (nat i))"

text \<open>
  \<open>strconv.Atoi\<close>: an optional sign and decimal digits, within the range of a 64-bit
  \<open>int\<close>. \<open>None\<close> is the error.
\<close>

fun digits_val :: "string \<Rightarrow> nat \<Rightarrow> nat option" where
  "digits_val [] acc = Some acc"
| "digits_val (c # cs) acc =
     (if 48 \<le> (of_char c :: nat) \<and> (of_char c :: nat) \<le> 57
      then digits_val cs (acc * 10 + (of_char c - 48))
      else None)"

definition strconv_Atoi :: "string \<Rightarrow> int option" where
  "strconv_Atoi s =
     (let neg = (s \<noteq> [] \<and> hd s = CHR ''-'');
          ds = (if s \<noteq> [] \<and> (hd s = CHR ''-'' \<or> hd s = CHR ''+'') then tl s else s)
      in if ds = [] then None
         else (case digits_val ds 0 of
                 None \<Rightarrow> None
               | Some n \<Rightarrow>
                   (let i = (if neg then - int n else int n)
                    in if - (2 ^ 63) \<le> i \<and> i < 2 ^ 63 then Some i else None)))"

text \<open>
  \<open>filepath.Base\<close>: the last element of the path, trailing separators removed; \<open>.\<close> for
  the empty path and \<open>/\<close> for a path of separators only.
\<close>

definition filepath_Base :: "string \<Rightarrow> string" where
  "filepath_Base path =
     (if path = [] then ''.''
      else
        let p = rev (dropWhile (\<lambda>c. c = CHR ''/'') (rev path));
            b = rev (takeWhile (\<lambda>c. c \<noteq> CHR ''/'') (rev p))
        in if b = [] then ''/'' else b)"

text \<open>
  \<open>strings.ToLower\<close> on the ASCII letters. The service only compares its result with
  the words \<open>clr\<close>, \<open>load-assembly\<close> and \<open>shell\<close>, none of whose letters is the lower
  case of a character outside ASCII, so the ASCII mapping decides the same comparisons.
\<close>

definition to_lower_char :: "char \<Rightarrow> char" where
  "to_lower_char c =
     (let n = (of_char c :: nat) in if 65 \<le> n \<and> n \<le> 90 then char_of (n + 32) else c)"

definition strings_ToLower :: "string \<Rightarrow> string" where
  "strings_ToLower s = map to_lower_char s"

text \<open>
  \<open>strings.TrimSpace\<close>: the leading and trailing white space of Unicode is removed;
  \<open>unicode_space\<close> lists the UTF-8 encodings of the white-space characters.
\<close>

definition unicode_space :: "string list" where
  "unicode_space =
     [[CHR 0x09], [CHR 0x0A], [CHR 0x0B], [CHR 0x0C], [CHR 0x0D], [CHR 0x20],
      [CHR 0xC2, CHR 0x85], [CHR 0xC2, CHR 0xA0], [CHR 0xE1, CHR 0x9A, CHR 0x80],
      [CHR 0xE2, CHR 0x80, CHR 0x80], [CHR 0xE2, CHR 0x80, CHR 0x81],
      [CHR 0xE2, CHR 0x80, CHR 0x82], [CHR 0xE2, CHR 0x80, CHR 0x83],
      [CHR 0xE2, CHR 0x80, CHR 0x84], [CHR 0xE2, CHR 0x80, CHR 0x85],
      [CHR 0xE2, CHR 0x80, CHR 0x86], [CHR 0xE2, CHR 0x80, CHR 0x87],
      [CHR 0xE2, CHR 0x80, CHR 0x88], [CHR 0xE2, CHR 0x80, CHR 0x89],
      [CHR 0xE2, CHR 0x80, CHR 0x8A], [CHR 0xE2, CHR 0x80, CHR 0xA8],
      [CHR 0xE2, CHR 0x80, CHR 0xA9], [CHR 0xE2, CHR 0x80, CHR 0xAF],
      [CHR 0xE2, CHR 0x81, CHR 0x9F], [CHR 0xE3, CHR 0x80, CHR 0x80]]"

definition trim_left1 :: "string \<Rightarrow> string" where
  "trim_left1 s =
     (case find (\<lambda>w. take (length w) s = w) unicode_space of
        Some w \<Rightarrow> drop (length w) s
      | None \<Rightarrow> s)"

definition trim_right1 :: "string \<Rightarrow> string" where
  "trim_right1 s =
     (case find (\<lambda>w. length w \<le> length s \<and> drop (length s - length w) s = w) unicode_space of
        Some w \<Rightarrow> take (length s - length w) s
      | None \<Rightarrow> s)"

definition strings_TrimSpace :: "string \<Rightarrow> string" where
  "strings_TrimSpace s =
     (let l = (trim_left1 ^^ length s) s in (trim_right1 ^^ length l) l)"

subsection \<open>The switch of \<open>Add\<close> on the command name\<close>

text \<open>The zero value of \<open>jobs.Job\<close>, and the job \<open>Add\<close> makes of it.\<close>

definition zero_job :: Job where
  "zero_job =
     \<lparr>job_AgentID = uuid_Nil, job_ID = [], job_Token = uuid_Nil, job_Type = UNSET,
      job_Payload = NoPayload\<rparr>"

definition new_job :: "jobtype \<Rightarrow> payload \<Rightarrow> Job" where
  "new_job ty p = zero_job\<lparr>job_Type := ty, job_Payload := p\<rparr>"

text \<open>
  The cases that take the command from \<open>jobArgs[0]\<close> without looking at the length of
  \<open>jobArgs\<close>: indexing an empty slice is a run-time panic. \<open>withArgs\<close> is the test under
  which the rest of the arguments is kept.
\<close>

definition arg0_command :: "jobtype \<Rightarrow> bool \<Rightarrow> string list \<Rightarrow> error + (Job \<times> string list)" where
  "arg0_command ty withArgs jobArgs =
     (if length jobArgs \<le> 0 then Inl (Panic ''index out of range [0] with length 0'')
      else Inr (new_job ty (Command (jobArgs ! 0) (if withArgs then drop 1 jobArgs else [])),
                jobArgs))"

text \<open>
  The \<open>switch jobType\<close> of \<open>Add\<close>: the job built for the command and the argument
  vector handed on to \<open>AddJobChannel\<close>, or the error returned. The state is only read
  (the files). A slice has its length for capacity.
\<close>

definition Add_switch :: "state \<Rightarrow> string \<Rightarrow> string list \<Rightarrow> error + (Job \<times> string list)" where
  "Add_switch s jobType jobArgs =
     (if jobType = ''agentInfo'' then
        Inr (new_job CONTROL (Command ''agentInfo'' []), jobArgs)
      else if jobType = ''download'' then
        (if length jobArgs \<le> 0 then Inl (Panic ''index out of range [0] with length 0'')
         else Inr (new_job FILETRANSFER (FileTransfer (jobArgs ! 0) [] False), jobArgs))
      else if jobType = ''cd'' then
        Inr (new_job NATIVE (Command ''cd'' jobArgs), jobArgs)
      else if jobType = ''changelistener'' then
        arg0_command CONTROL (length jobArgs \<ge> 2) jobArgs
      else if jobType = ''CreateProcess'' then
        Inr (new_job MODULE (Command jobType jobArgs), jobArgs)
      else if jobType = ''env'' then
        Inr (new_job NATIVE (Command jobType jobArgs), jobArgs)
      else if jobType = ''exit'' then
        arg0_command CONTROL False jobArgs
      else if jobType = ''ifconfig'' then
        Inr (new_job NATIVE (Command jobType []), jobArgs)
      else if jobType = ''initialize'' then
        Inr (new_job CONTROL (Command jobType []), jobArgs)
      else if jobType = ''invoke-assembly'' then
        (if length jobArgs < 1 then Inl (ErrExpectedArgs jobType (length jobArgs))
         else Inr (new_job MODULE (Command ''clr'' (jobType # jobArgs)), jobArgs))
      else if jobType = ''ja3'' then
        arg0_command CONTROL (length jobArgs = 2) jobArgs
      else if jobType = ''killdate'' then
        arg0_command CONTROL (length jobArgs = 2) jobArgs
      else if jobType = ''killprocess'' then
        Inr (new_job NATIVE (Command ''killprocess'' jobArgs), jobArgs)
      else if jobType = ''link'' then
        Inr (new_job MODULE (Command ''link'' jobArgs), jobArgs)
      else if jobType = ''listener'' then
        Inr (new_job MODULE (Command ''listener'' jobArgs), jobArgs)
      else if jobType = ''list-assemblies'' then
        Inr (new_job MODULE (Command ''clr'' [''list-assemblies'']), jobArgs)
      else if jobType = ''load-assembly'' then
        (if length jobArgs < 1 then Inl (ErrExpectedArgs jobType (length jobArgs))
         else (case ReadFile s (jobArgs ! 0) of
                 None \<Rightarrow> Inl (ErrReadFile (jobArgs ! 0))
               | Some assembly \<Rightarrow>
                   (let name = (if length jobArgs > 1 then jobArgs ! 1
                                else filepath_Base (jobArgs ! 0))
                    in Inr (new_job MODULE
                              (Command ''clr''
                                 [jobType, base64_EncodeToString assembly, name]),
                            jobArgs @ [sha256 assembly]))))
      else if jobType = ''load-clr'' then
        (if length jobArgs < 1 then Inl (ErrExpectedArgs jobType (length jobArgs))
         else Inr (new_job MODULE (Command ''clr'' (jobType # jobArgs)), jobArgs))
      else if jobType = ''ls'' then
        Inr (new_job NATIVE (Command ''ls'' (if length jobArgs > 0 then jobArgs else [''./''])),
             jobArgs)
      else if jobType = ''maxretry'' then
        arg0_command CONTROL (length jobArgs = 2) jobArgs
      else if jobType = ''memory'' then
        Inr (new_job MODULE (Command jobType jobArgs), jobArgs)
      else if jobType = ''memfd'' then
        (if length jobArgs < 1 then Inl (ErrExpectedArgs jobType (length jobArgs))
         else (case ReadFile s (jobArgs ! 0) of
                 None \<Rightarrow> Inl (ErrReadFile (jobArgs ! 0))
               | Some executable \<Rightarrow>
                   Inr (new_job MODULE
                          (Command jobType (base64_EncodeToString executable # drop 1 jobArgs)),
                        jobArgs)))
      else if jobType = ''Minidump'' then
        Inr (new_job MODULE (Command jobType jobArgs), jobArgs)
      else if jobType = ''netstat'' then
        Inr (new_job MODULE (Command jobType jobArgs), jobArgs)
      else if jobType = ''nslookup'' then
        Inr (new_job NATIVE (Command jobType jobArgs), jobArgs)
      else if jobType = ''padding'' then
        arg0_command CONTROL (length jobArgs = 2) jobArgs
      else if jobType = ''pipes'' then
        Inr (new_job MODULE (Command ''pipes'' []), jobArgs)
      else if jobType = ''ps'' then
        Inr (new_job MODULE (Command ''ps'' []), jobArgs)
      else if jobType = ''pwd'' then
        arg0_command NATIVE False jobArgs
      else if jobType = ''rm'' then
        (if length jobArgs < 1 then Inl (Panic ''slice bounds out of range [:1] with capacity 0'')
         else Inr (new_job NATIVE (Command jobType (take 1 jobArgs)), jobArgs))
      else if jobType = ''run'' \<or> jobType = ''exec'' then
        arg0_command CMD (length jobArgs > 1) jobArgs
      else if jobType = ''runas'' then
        Inr (new_job MODULE (Command jobType jobArgs), jobArgs)
      else if jobType = ''sdelete'' then
        Inr (new_job NATIVE (Command jobType jobArgs), jobArgs)
      else if jobType = ''shell'' then
        Inr (new_job CMD (Command jobType jobArgs), jobArgs)
      else if jobType = ''shellcode'' then
        (if length jobArgs \<le> 0 then Inl (Panic ''index out of range [0] with length 0'')
         else
           let method = jobArgs ! 0 in
           if method = ''self'' then
             (if length jobArgs \<le> 1 then Inl (Panic ''index out of range [1] with length 1'')
              else Inr (new_job SHELLCODE (Shellcode method (jobArgs ! 1) 0), jobArgs))
           else if method = ''remote'' \<or> method = ''rtlcreateuserthread'' \<or> method = ''userapc'' then
             (if length jobArgs \<le> 1 then Inl (Panic ''index out of range [1] with length 1'')
              else (case strconv_Atoi (jobArgs ! 1) of
                      None \<Rightarrow> Inl (ErrAtoi (jobArgs ! 1))
                    | Some i \<Rightarrow>
                        (if length jobArgs \<le> 2
                         then Inl (Panic ''index out of range [2] with length 2'')
                         else Inr (new_job SHELLCODE
                                     (Shellcode method (jobArgs ! 2) (word_of_int i)),
                                   jobArgs))))
           else Inr (new_job SHELLCODE (Shellcode method [] 0), jobArgs))
      else if jobType = ''skew'' then
        arg0_command CONTROL (length jobArgs = 2) jobArgs
      else if jobType = ''sleep'' then
        arg0_command CONTROL (length jobArgs = 2) jobArgs
      else if jobType = ''ssh'' then
        Inr (new_job MODULE (Command jobType jobArgs), jobArgs)
      else if jobType = ''token'' then
        Inr (new_job MODULE (Command jobType jobArgs), jobArgs)
      else if jobType = ''touch'' then
        Inr (new_job NATIVE (Command jobType jobArgs), jobArgs)
      else if jobType = ''unlink'' then
        Inr (new_job MODULE (Command ''unlink'' jobArgs), jobArgs)
      else if jobType = ''upload'' then
        (if length jobArgs < 2 then Inl (ErrExpectedArgs jobType (length jobArgs))
         else (case ReadFile s (jobArgs ! 0) of
                 None \<Rightarrow> Inl (ErrReadType FILETRANSFER)
               | Some uploadFile \<Rightarrow>
                   (let jobArgs1 = (if length jobArgs > 2 then jobArgs[2 := sha256 uploadFile]
                                    else jobArgs @ [sha256 uploadFile]);
                        jobArgs2 = (if length jobArgs1 > 3
                                    then jobArgs1[3 := show_nat (length uploadFile)]
                                    else jobArgs1 @ [show_nat (length uploadFile)])
                    in Inr (new_job FILETRANSFER
                              (FileTransfer (jobArgs2 ! 1) (base64_EncodeToString uploadFile) True),
                            jobArgs2))))
      else if jobType = ''uptime'' then
        Inr (new_job MODULE (Command ''uptime'' []), jobArgs)
      else Inl (ErrInvalidJobType UNSET))"

subsection \<open>Tracking a job and queueing it\<close>

text \<open>
  Modelled from the spec: \<open>jobs.NewInfo\<close> is not part of the sources. A new record
  has a fresh id and token (the next draw of the random source), the status
  \<open>CREATED\<close> and the clock reading as its creation time.
\<close>

definition NewInfo :: "state \<Rightarrow> uuid \<Rightarrow> jobtype \<Rightarrow> summary \<Rightarrow> Info \<times> state" where
  "NewInfo s agentID ty command =
     (\<lparr>info_id = fst (rand s (rand_ix s)), info_agentID = agentID, info_jobType = ty,
       info_token = snd (rand s (rand_ix s)), info_command = command, info_status = CREATED,
       info_created = now s, info_sent = 0, info_completed = 0\<rparr>,
      s\<lparr>rand_ix := rand_ix s + 1\<rparr>)"

text \<open>The arguments of a command joined by spaces and cut after 30 bytes.\<close>

definition truncate_args :: "string list \<Rightarrow> string" where
  "truncate_args a =
     (let args = strings_Join a '' ''
      in if length args > 30 then take 30 args @ ''...'' else args)"

text \<open>
  The \<open>switch job.Type\<close> of \<open>buildJob\<close>: the command summary of the job, with the lines
  it writes to the agent's log on the way. A payload of another dynamic type than the
  one asserted, and an index outside \<open>cmd.Args\<close> or \<open>jobArgs\<close>, is a panic.
\<close>

definition command_summary ::
  "state \<Rightarrow> uuid \<Rightarrow> Job \<Rightarrow> string list \<Rightarrow> error + (state \<times> summary)" where
  "command_summary s agent job jobArgs =
     (case job_Payload job of
        Command c a \<Rightarrow>
          (if job_Type job = MODULE \<and> strings_ToLower c = ''clr'' then
             (if length a \<le> 0 then Inl (Panic ''index out of range [0] with length 0'')
              else
                Inr (if strings_ToLower (a ! 0) = ''load-assembly'' \<and> length jobArgs > 2
                     then agent_Log agent (MsgLoadingAssembly (jobArgs ! 0) (jobArgs ! 2)) s
                     else s,
                     Summary (c @ '' '' @ truncate_args a)))
           else Inr (s, Summary (c @ '' '' @ truncate_args a)))
      | _ \<Rightarrow> Inl (Panic ''interface conversion''))"

definition buildJob_command ::
  "state \<Rightarrow> uuid \<Rightarrow> Job \<Rightarrow> string list \<Rightarrow> error + (state \<times> summary)" where
  "buildJob_command s agent job jobArgs =
     (case job_Type job of
        CONTROL \<Rightarrow> command_summary s agent job jobArgs
      | MODULE \<Rightarrow> command_summary s agent job jobArgs
      | NATIVE \<Rightarrow> command_summary s agent job jobArgs
      | CMD \<Rightarrow>
          (case job_Payload job of
             Command c a \<Rightarrow>
               Inr (s, Summary (strings_TrimSpace
                                  (if strings_ToLower c = ''shell''
                                   then c @ '' '' @ truncate_args a
                                   else ''run '' @ c @ '' '' @ truncate_args a)))
           | _ \<Rightarrow> Inl (Panic ''interface conversion''))
      | FILETRANSFER \<Rightarrow>
          (case job_Payload job of
             FileTransfer l b d \<Rightarrow>
               (if d then
                  (if length jobArgs > 2 then
                     (if length jobArgs \<le> 3 then Inl (Panic ''index out of range [3] with length 3'')
                      else Inr (agent_Log agent
                                  (MsgUploading (jobArgs ! 0) (jobArgs ! 3) (jobArgs ! 2) (jobArgs ! 1)) s,
                                Summary (''upload '' @ jobArgs ! 0 @ '' '' @ jobArgs ! 1)))
                   else Inr (s, Summary []))
                else
                  (if length jobArgs > 0 then
                     Inr (agent_Log agent (MsgDownloading (jobArgs ! 0)) s,
                          Summary (''download '' @ jobArgs ! 0))
                   else Inr (s, Summary [])))
           | _ \<Rightarrow> Inl (Panic ''interface conversion''))
      | SHELLCODE \<Rightarrow>
          (case job_Payload job of
             Shellcode m b pid \<Rightarrow>
               Inr (s, Summary (''shellcode '' @ m @ '' '' @ show_nat (unat pid) @ '' length '' @
                                show_nat (length b)))
           | _ \<Rightarrow> Inl (Panic ''interface conversion''))
      | SOCKS \<Rightarrow>
          (case job_Payload job of
             Socks c i d cl \<Rightarrow>
               Inr (s, Summary (''SOCKS connection '' @ c @ '' packet '' @ show_int i))
           | _ \<Rightarrow> Inl (Panic ''interface conversion''))
      | _ \<Rightarrow>
          Inr (s\<lparr>console := console s @ [MsgDefault]\<rparr>,
               SummaryDefault (job_Type job) (job_Payload job)))"

text \<open>
  \<open>buildJob\<close>. The job is passed by pointer: the second component is the job as
  \<open>buildJob\<close> leaves it. The token and the id of the new record are copied to the job
  only where the job has none; what \<open>jobRepo.Add\<close> returns is not looked at.
\<close>

definition buildJob :: "state \<Rightarrow> uuid \<Rightarrow> Job \<Rightarrow> string list \<Rightarrow> state \<times> Job \<times> error option" where
  "buildJob s agentID job jobArgs =
     (case Agent s agentID of
        Inl e \<Rightarrow> (s, job, Some (ErrBuildUnknownAgent agentID))
      | Inr agent \<Rightarrow>
          (let job1 = job\<lparr>job_AgentID := agentID\<rparr> in
           case buildJob_command s agent job1 jobArgs of
             Inl e \<Rightarrow> (s, job1, Some e)
           | Inr (s1, command) \<Rightarrow>
               (let (jobInfo, s2) = NewInfo s1 agentID (job_Type job1) command;
                    job2 = (if job_Token job1 = uuid_Nil
                            then job1\<lparr>job_Token := info_token jobInfo\<rparr> else job1);
                    job3 = (if job_ID job2 = []
                            then job2\<lparr>job_ID := info_id jobInfo\<rparr> else job2);
                    s3 = (case repo_Add (repo s2) job3 jobInfo of
                            Inl e \<Rightarrow> s2
                          | Inr r \<Rightarrow> s2\<lparr>repo := r\<rparr>);
                    s4 = agent_Log agent (MsgCreatedJob (job_Type job3) (job_ID job3) command) s3
                in (s4, job3, None))))"

text \<open>
  The loop of \<open>AddJobChannel\<close> over the known agents: every call of \<open>buildJob\<close> gets the
  same job pointer, so the job goes from one agent to the next as the call before left it.
\<close>

fun AddJobChannel_loop ::
  "state \<Rightarrow> uuid list \<Rightarrow> Job \<Rightarrow> string list \<Rightarrow> result_line list \<Rightarrow>
   state \<times> Job \<times> result_line list \<times> error option" where
  "AddJobChannel_loop s [] job jobArgs results = (s, job, results, None)"
| "AddJobChannel_loop s (a # as) job jobArgs results =
     (case buildJob s a job jobArgs of
        (s', job', Some e) \<Rightarrow> (s', job', results, Some e)
      | (s', job', None) \<Rightarrow>
          AddJobChannel_loop s' as job' jobArgs
            (results @ [CreatedFor (job_ID job') a (now s')]))"

definition AddJobChannel ::
  "state \<Rightarrow> uuid \<Rightarrow> Job \<Rightarrow> string list \<Rightarrow> state \<times> Job \<times> result_line list \<times> error option" where
  "AddJobChannel s agentID job jobArgs =
     (if agentID = broadcast_id then
        (if length (agents s) \<le> 0 then (s, job, [], Some ErrNoAgents)
         else AddJobChannel_loop s (agents s) job jobArgs [BroadcastHeader])
      else
        (case buildJob s agentID job jobArgs of
           (s', job', Some e) \<Rightarrow> (s', job', [], Some e)
         | (s', job', None) \<Rightarrow> (s', job', [CreatedFor (job_ID job') agentID (now s')], None)))"

text \<open>\<open>Add\<close>: the result text and the error returned to the operator, and the new state.\<close>

definition Add :: "state \<Rightarrow> uuid \<Rightarrow> string \<Rightarrow> string list \<Rightarrow> state \<times> result_line list \<times> error option" where
  "Add s agentID jobType jobArgs =
     (case Add_switch s jobType jobArgs of
        Inl e \<Rightarrow> (s, [], Some e)
      | Inr (job, jobArgs') \<Rightarrow>
          (case AddJobChannel s agentID job jobArgs' of
             (s', job', results, err) \<Rightarrow> (s', results, err)))"

subsection \<open>The service instance\<close>

text \<open>
  The package-level state of the service: the variable \<open>memoryService\<close> (\<open>None\<close> is
  \<open>nil\<close>, \<open>Some a\<close> the pointer to the service allocated at address \<open>a\<close>), the next free
  address, and the \<open>socksJobs\<close> goroutines started so far, each with the service it
  runs on.
\<close>

record process =
  memoryService :: "nat option"
  next_addr :: nat
  socksJobs :: "nat list"

text \<open>\<open>NewJobService\<close>: the new package state and the pointer returned.\<close>

definition NewJobService :: "process \<Rightarrow> process \<times> nat" where
  "NewJobService p =
     (let p1 = (if memoryService p = None
                then p\<lparr>memoryService := Some (next_addr p), next_addr := next_addr p + 1\<rparr>
                else p);
          svc = (case memoryService p1 of Some a \<Rightarrow> a | None \<Rightarrow> next_addr p)
      in (p1\<lparr>socksJobs := socksJobs p1 @ [svc]\<rparr>, svc))"

section \<open>Example states and jobs\<close>

text \<open>
  A server started in \<open>/srv/merlin\<close> that knows one agent, \<open>agentA\<close>, whose data
  directory exists, and tracks one job sent to it: \<open>run whoami\<close>, with token \<open>tokenT\<close>.
\<close>

definition agentA :: uuid where
  "agentA = ''c1090dbc-f2f7-4d90-a241-86e0c0217786''"

definition agentB :: uuid where
  "agentB = ''7a5b0b4e-5c3d-4f0a-9d65-0e3b6c1f2a11''"

definition tokenT :: uuid where
  "tokenT = ''2b5d6f1e-9a61-4e2c-8c55-4f0e7a3d9b10''"

definition tokenU :: uuid where
  "tokenU = ''00c0ffee-0000-4000-8000-00000000beef''"

definition ex_info :: Info where
  "ex_info =
     \<lparr>info_id = ''jzVxqTyKIW'', info_agentID = agentA, info_jobType = CMD, info_token = tokenT,
      info_command = Summary ''run whoami'', info_status = SENT, info_created = 900,
      info_sent = 950, info_completed = 0\<rparr>"

definition ex_state :: state where
  "ex_state =
     \<lparr>repo = \<lparr>repo_queue = [], repo_infos = [ex_info]\<rparr>,
      agents = [agentA],
      agent_log = [],
      agent_info = [],
      broadcasts = [],
      socks_in = [],
      console = [],
      dirs = [''/srv/merlin'', ''/srv/merlin/data'', ''/srv/merlin/data/agents'',
              ''/srv/merlin/data/agents/c1090dbc-f2f7-4d90-a241-86e0c0217786''],
      files = (\<lambda>p. None),
      CurrentDir = ''/srv/merlin'',
      DebugFlag = False,
      now = 1000,
      rand = (\<lambda>n. (''job'' @ replicate n (CHR ''x''), ''token'' @ replicate n (CHR ''x''))),
      rand_ix = 0\<rparr>"

text \<open>Jobs returned by \<open>agentA\<close> for the tracked job.\<close>

definition ex_job :: "jobtype \<Rightarrow> uuid \<Rightarrow> payload \<Rightarrow> Job" where
  "ex_job ty tok p =
     \<lparr>job_AgentID = agentA, job_ID = ''jzVxqTyKIW'', job_Token = tok, job_Type = ty,
      job_Payload = p\<rparr>"

text \<open>A result message of \<open>agentA\<close> that belongs to no job the server tracks.\<close>

definition ex_stray_result :: Job where
  "ex_stray_result =
     \<lparr>job_AgentID = agentA, job_ID = ''AAAAAAAAAA'', job_Token = uuid_Nil, job_Type = RESULT,
      job_Payload = Results [] ''the agent could not parse the message''\<rparr>"

text \<open>
  The same server when it knows two agents and tracks no job yet. The random source
  yields the ids \<open>job\<close>, \<open>jobx\<close>, \<open>jobxx\<close>, ... and the tokens \<open>token\<close>, \<open>tokenx\<close>, ...
\<close>

definition ex_two_agents :: state where
  "ex_two_agents =
     ex_state\<lparr>repo := \<lparr>repo_queue = [], repo_infos = []\<rparr>, agents := [agentA, agentB]\<rparr>"

text \<open>The server of \<open>ex_state\<close> when the random source draws the id of the tracked job.\<close>

definition ex_same_id :: state where
  "ex_same_id = ex_state\<lparr>rand := (\<lambda>n. (''jzVxqTyKIW'', tokenU))\<rparr>"



text \<open>The package state when the program starts: no service yet, no goroutine.\<close>

definition proc0 :: process where
  "proc0 = \<lparr>memoryService = None, next_addr = 0, socksJobs = []\<rparr>"

subsection \<open>The state after a file was written\<close>


section \<open>Facts about the repository and the frame of the dispatcher\<close>

lemma find_SomeD: "find P xs = Some x \<Longrightarrow> P x \<and> x \<in> set xs"
  by (induction xs) (auto split: if_splits)

lemma GetInfo_id:
  assumes "GetInfo r jid = Inr i"
  shows "info_id i = jid"
proof -
  from assms have "find (\<lambda>i. info_id i = jid) (repo_infos r) = Some i"
    by (simp add: GetInfo_def split: option.splits)
  from find_SomeD[OF this] show ?thesis by simp
qed

lemma GetInfo_known:
  assumes "GetInfo r jid = Inr i"
  shows "jid \<in> set (map info_id (repo_infos r))"
proof -
  from assms have "find (\<lambda>i. info_id i = jid) (repo_infos r) = Some i"
    by (simp add: GetInfo_def split: option.splits)
  from find_SomeD[OF this] have "info_id i = jid" "i \<in> set (repo_infos r)" by simp_all
  then show ?thesis by force
qed

lemma find_replace_info:
  "k \<in> set (map info_id xs) \<Longrightarrow> info_id n = k \<Longrightarrow>
   find (\<lambda>i. info_id i = k) (replace_info n xs) = Some n"
  by (induction xs) auto

lemma UpdateInfo_ok:
  "GetInfo r jid = Inr i \<Longrightarrow> info_id n = jid \<Longrightarrow>
   UpdateInfo r n = Inr (r\<lparr>repo_infos := replace_info n (repo_infos r)\<rparr>)"
  using GetInfo_known[of r jid i] by (simp add: UpdateInfo_def)

lemma GetInfo_replace:
  "GetInfo r jid = Inr i \<Longrightarrow> info_id n = jid \<Longrightarrow>
   GetInfo (r\<lparr>repo_infos := replace_info n (repo_infos r)\<rparr>) jid = Inr n"
  using GetInfo_known[of r jid i] find_replace_info[of jid "repo_infos r" n]
  by (simp add: GetInfo_def)

lemma log_and_fail_fst:
  "repo (fst (log_and_fail s a e)) = repo s"
  "agents (fst (log_and_fail s a e)) = agents s"
  "now (fst (log_and_fail s a e)) = now s"
  by (simp_all add: log_and_fail_def Log_def agent_Log_def split: prod.split option.split)

lemma WriteFile_fst:
  "WriteFile s p d m = Some s' \<Longrightarrow> repo s' = repo s \<and> agents s' = agents s \<and> now s' = now s"
  by (auto simp: WriteFile_def split: if_splits option.splits)

lemma fileTransfer_fst:
  "repo (fst (fileTransfer s a p)) = repo s \<and>
   agents (fst (fileTransfer s a p)) = agents s \<and>
   now (fst (fileTransfer s a p)) = now s"
proof (cases "\<not> Exist s a \<or> \<not> ft_IsDownload p \<or> \<not> path_exists s (agentsDir s)")
  case True
  then show ?thesis
    by (auto simp: fileTransfer_def Let_def log_and_fail_fst)
next
  case False
  define s1 where "s1 = SendBroadcastMessage Success (MsgResultsFor a (now s)) s"
  have k1: "repo s1 = repo s" "agents s1 = agents s" "now s1 = now s"
    by (simp_all add: s1_def SendBroadcastMessage_def)
  show ?thesis
  proof (cases "base64_DecodeString (ft_FileBlob p)")
    case None
    with False show ?thesis
      by (simp add: fileTransfer_def Let_def log_and_fail_fst s1_def[symmetric] k1)
  next
    case (Some blob)
    define tgt where "tgt = filepath_Join [agentsDir s, a, snd (filepath_Split (ft_FileLocation p))]"
    show ?thesis
    proof (cases "WriteFile s1 tgt blob perm_0600")
      case None
      with False Some show ?thesis
        by (simp add: fileTransfer_def Let_def log_and_fail_fst s1_def[symmetric] tgt_def[symmetric] k1)
    next
      case (Some s2)
      from WriteFile_fst[OF Some] k1
      have k2: "repo s2 = repo s" "agents s2 = agents s" "now s2 = now s" by simp_all
      from False \<open>base64_DecodeString (ft_FileBlob p) = Some blob\<close> Some
      have "fileTransfer s a p =
            Log (SendBroadcastMessage Success
                   (MsgDownloaded (ft_FileLocation p) (length blob) a tgt) s2) a
                (MsgDownloaded (ft_FileLocation p) (length blob) a tgt)"
        by (simp add: fileTransfer_def Let_def s1_def[symmetric] tgt_def[symmetric])
      with k2 show ?thesis
        by (simp add: Log_def agent_Log_def SendBroadcastMessage_def)
    qed
  qed
qed

lemma dispatch_fst:
  "repo (fst (dispatch s a job)) = repo s \<and>
   agents (fst (dispatch s a job)) = agents s \<and>
   now (fst (dispatch s a job)) = now s"
proof (cases "job_Type job")
  case RESULT
  then show ?thesis
    by (cases "job_Payload job")
       (simp_all add: dispatch_def Let_def SendBroadcastMessage_def agent_Log_def)
next
  case AGENTINFO
  then show ?thesis
    by (cases "job_Payload job")
       (simp_all add: dispatch_def UpdateAgentInfo_def)
next
  case FILETRANSFER
  then show ?thesis
    by (cases "job_Payload job")
       (simp_all add: dispatch_def fileTransfer_fst)
next
  case SOCKS
  then show ?thesis by (simp add: dispatch_def)
qed (simp_all add: dispatch_def)

text \<open>
  What \<open>Handler\<close> does with a job of a known agent that has an information record,
  once the token check is over and the dispatch has returned no error.
\<close>

lemma Handler_job_accept:
  assumes ex: "Exist s (job_AgentID job)"
    and gi: "GetInfo (repo s) (job_ID job) = Inr jobInfo"
    and ck: "checkJob s job = None \<or> job_Type job = RESULT"
    and s0: "s0 = (case checkJob s job of
                     Some e \<Rightarrow> (if DebugFlag s
                                then s\<lparr>console := console s @ [MsgDebugNoToken (job_Type job) e]\<rparr>
                                else s)
                   | None \<Rightarrow> s)"
    and dp: "dispatch s0 (job_AgentID job) job = (s1, None)"
    and ad: "advance s1 job jobInfo = Inr jobInfo'"
  shows "Handler_job s job = (s1\<lparr>repo := (repo s)\<lparr>repo_infos := replace_info jobInfo' (repo_infos (repo s))\<rparr>\<rparr>, None)"
proof -
  have r0: "repo s0 = repo s" using s0 by (simp split: option.split)
  have r1: "repo s1 = repo s" using dispatch_fst[of s0 "job_AgentID job" job] dp r0 by simp
  have id': "info_id jobInfo' = job_ID job"
    using ad GetInfo_id[OF gi]
    by (auto simp: advance_def Complete_def Active_def split: if_splits payload.splits)
  have up: "UpdateInfo (repo s1) jobInfo' =
            Inr ((repo s)\<lparr>repo_infos := replace_info jobInfo' (repo_infos (repo s))\<rparr>)"
    using UpdateInfo_ok[OF gi id'] r1 by simp
  from ck have nb: "(checkJob s job \<noteq> None \<and> job_Type job \<noteq> RESULT) = False" by auto
  show ?thesis
    using ex gi dp ad up
    by (simp add: Handler_job_def Agent_def Let_def nb s0[symmetric] del: not_None_eq)
qed

text \<open>
  A job of a known agent after which \<open>Handler\<close> returns \<open>nil\<close>: the job had an
  information record, it passed the check unless it is a result message, and the record
  stored afterwards is the old one moved to its next status.
\<close>

lemma Handler_accepted:
  assumes ex: "Exist s (job_AgentID job)"
    and H: "Handler s [job] = (s', None)"
  shows "\<exists>jobInfo. GetInfo (repo s) (job_ID job) = Inr jobInfo \<and>
           (checkJob s job = None \<or> job_Type job = RESULT) \<and>
           GetInfo (repo s') (job_ID job) =
             Inr (if job_Type job = SOCKS \<and> \<not> socks_Close (job_Payload job)
                  then Active jobInfo else Complete (now s) jobInfo) \<and>
           agents s' = agents s \<and> now s' = now s"
proof -
  from H have HJ: "Handler_job s job = (s', None)"
    by (simp split: prod.splits option.splits)
  obtain jobInfo where gi: "GetInfo (repo s) (job_ID job) = Inr jobInfo"
  proof (cases "GetInfo (repo s) (job_ID job)")
    case (Inl e)
    with ex HJ show ?thesis by (simp add: Handler_job_def Agent_def)
  next
    case (Inr i)
    then show ?thesis using that by simp
  qed
  have ck: "checkJob s job = None \<or> job_Type job = RESULT"
  proof (rule ccontr)
    assume "\<not> ?thesis"
    then have "checkJob s job \<noteq> None \<and> job_Type job \<noteq> RESULT" by simp
    with ex gi have "Handler_job s job = (s, checkJob s job)"
      by (simp add: Handler_job_def Agent_def Let_def del: not_None_eq)
    with HJ \<open>checkJob s job \<noteq> None \<and> job_Type job \<noteq> RESULT\<close> show False by simp
  qed
  define s0 where "s0 = (case checkJob s job of
                     Some e \<Rightarrow> (if DebugFlag s
                                then s\<lparr>console := console s @ [MsgDebugNoToken (job_Type job) e]\<rparr>
                                else s)
                   | None \<Rightarrow> s)"
  have k0: "repo s0 = repo s" "agents s0 = agents s" "now s0 = now s"
    by (simp_all add: s0_def split: option.split)
  obtain s1 r1 where dp: "dispatch s0 (job_AgentID job) job = (s1, r1)"
    by (cases "dispatch s0 (job_AgentID job) job") simp
  from ck have nb: "(checkJob s job \<noteq> None \<and> job_Type job \<noteq> RESULT) = False" by auto
  have r1: "r1 = None"
  proof (cases r1)
    case (Some e)
    with ex gi dp have "Handler_job s job = (s1, Some e)"
      by (simp add: Handler_job_def Agent_def Let_def nb s0_def[symmetric] del: not_None_eq)
    with HJ show ?thesis by simp
  qed simp
  have k1: "repo s1 = repo s" "agents s1 = agents s" "now s1 = now s"
    using dispatch_fst[of s0 "job_AgentID job" job] dp k0 by simp_all
  obtain jobInfo' where ad: "advance s1 job jobInfo = Inr jobInfo'"
  proof (cases "advance s1 job jobInfo")
    case (Inl e)
    with ex gi dp r1 have "Handler_job s job = (s1, Some e)"
      by (simp add: Handler_job_def Agent_def Let_def nb s0_def[symmetric] del: not_None_eq)
    with HJ show ?thesis by simp
  next
    case (Inr i)
    then show ?thesis using that by simp
  qed
  have s': "s' = s1\<lparr>repo := (repo s)\<lparr>repo_infos := replace_info jobInfo' (repo_infos (repo s))\<rparr>\<rparr>"
    using Handler_job_accept[OF ex gi ck s0_def dp[unfolded r1] ad] HJ by simp
  have id': "info_id jobInfo' = job_ID job"
    using ad GetInfo_id[OF gi]
    by (auto simp: advance_def Complete_def Active_def split: if_splits payload.splits)
  have new: "jobInfo' = (if job_Type job = SOCKS \<and> \<not> socks_Close (job_Payload job)
                  then Active jobInfo else Complete (now s) jobInfo)"
    using ad k1 by (auto simp: advance_def split: if_splits payload.splits)
  have "GetInfo (repo s') (job_ID job) = Inr jobInfo'"
    using GetInfo_replace[OF gi id'] by (simp add: s')
  with gi ck new k1 show ?thesis by (simp add: s')
qed

text \<open>
  A job of any type other than \<open>RESULT\<close> that a known agent returns for a tracked job
  id with a token other than the recorded one is rejected: \<open>Handler\<close> returns the token
  error of \<open>checkJob\<close>, the rest of the batch is not processed and the state is the one
  before the call.
\<close>

lemma Handler_rejects_token_mismatch:
  assumes "Exist s (job_AgentID job)"
    and "GetInfo (repo s) (job_ID job) = Inr jobInfo"
    and "job_Token job \<noteq> info_token jobInfo"
    and "job_Type job \<noteq> RESULT"
  shows "Handler s (job # rest) =
           (s, Some (ErrToken (job_ID job) (job_AgentID job) (info_token jobInfo) (job_Token job)))"
  using assms by (simp add: Handler_job_def Agent_def checkJob_def)

text \<open>
  After \<open>Handler\<close> has accepted a job of a known agent whose type is not \<open>RESULT\<close> and
  has moved its record to \<open>COMPLETE\<close> (any type but a SOCKS frame that keeps the
  connection open), a later call that carries the same job, at any clock reading,
  returns the previously-completed error of \<open>checkJob\<close> and leaves the state as it was.
\<close>

lemma Handler_completed_job_refused:
  assumes "Exist s (job_AgentID job)"
    and "job_Type job \<noteq> RESULT"
    and "job_Type job = SOCKS \<longrightarrow> socks_Close (job_Payload job)"
    and "Handler s [job] = (s1, None)"
  shows "\<exists>jobInfo. GetInfo (repo s1) (job_ID job) = Inr jobInfo \<and>
           info_status jobInfo = COMPLETE \<and>
           Handler (s1\<lparr>now := t\<rparr>) (job # rest) =
             (s1\<lparr>now := t\<rparr>,
              Some (ErrCompleted (job_ID job) (job_AgentID job) (info_completed jobInfo)))"
proof -
  from Handler_accepted[OF assms(1) assms(4)] assms(2)
  obtain jobInfo where gi: "GetInfo (repo s) (job_ID job) = Inr jobInfo"
    and ck: "checkJob s job = None"
    and g1: "GetInfo (repo s1) (job_ID job) =
             Inr (if job_Type job = SOCKS \<and> \<not> socks_Close (job_Payload job)
                  then Active jobInfo else Complete (now s) jobInfo)"
    and ag: "agents s1 = agents s"
    by auto
  from g1 assms(3) have g1': "GetInfo (repo s1) (job_ID job) = Inr (Complete (now s) jobInfo)"
    by auto
  from ck assms(1) gi have tok: "job_Token job = info_token jobInfo"
    by (simp add: checkJob_def split: if_splits)
  have "Handler (s1\<lparr>now := t\<rparr>) (job # rest) =
             (s1\<lparr>now := t\<rparr>,
              Some (ErrCompleted (job_ID job) (job_AgentID job)
                      (info_completed (Complete (now s) jobInfo))))"
    using assms(1,2) g1' tok ag
    by (simp add: Handler_job_def Agent_def Exist_def checkJob_def Complete_def)
  with g1' show ?thesis by (auto simp: Complete_def)
qed

lemmas handler_defs =
  Handler_job_def Agent_def Exist_def checkJob_def GetInfo_def dispatch_def advance_def
  UpdateInfo_def Complete_def Active_def SendBroadcastMessage_def agent_Log_def Let_def

lemmas ex_defs =
  ex_state_def ex_job_def ex_info_def ex_stray_result_def tokenT_def tokenU_def agentA_def
  uuid_Nil_def




section \<open>Facts about the builder\<close>





text \<open>The summary switch of \<open>buildJob\<close> writes to the agent's log and the console only.\<close>

lemma command_summary_frame:
  "command_summary s a job jobArgs = Inr (s1, c) \<Longrightarrow>
   repo s1 = repo s \<and> agents s1 = agents s \<and> now s1 = now s \<and>
   rand s1 = rand s \<and> rand_ix s1 = rand_ix s"
  by (cases "job_Payload job")
     (auto simp: command_summary_def agent_Log_def split: if_splits)

lemma buildJob_command_frame:
  assumes "buildJob_command s a job jobArgs = Inr (s1, c)"
  shows "repo s1 = repo s \<and> agents s1 = agents s \<and> now s1 = now s \<and>
         rand s1 = rand s \<and> rand_ix s1 = rand_ix s"
proof (cases "job_Type job")
  case CONTROL
  with assms have "command_summary s a job jobArgs = Inr (s1, c)"
    by (simp add: buildJob_command_def)
  from command_summary_frame[OF this] show ?thesis .
next
  case MODULE
  with assms have "command_summary s a job jobArgs = Inr (s1, c)"
    by (simp add: buildJob_command_def)
  from command_summary_frame[OF this] show ?thesis .
next
  case NATIVE
  with assms have "command_summary s a job jobArgs = Inr (s1, c)"
    by (simp add: buildJob_command_def)
  from command_summary_frame[OF this] show ?thesis .
next
  case CMD
  with assms show ?thesis
    by (cases "job_Payload job") (auto simp: buildJob_command_def)
next
  case FILETRANSFER
  with assms show ?thesis
    by (cases "job_Payload job")
       (auto simp: buildJob_command_def agent_Log_def split: if_splits)
next
  case SHELLCODE
  with assms show ?thesis
    by (cases "job_Payload job") (auto simp: buildJob_command_def)
next
  case SOCKS
  with assms show ?thesis
    by (cases "job_Payload job") (auto simp: buildJob_command_def)
next
  case UNSET
  with assms show ?thesis by (auto simp: buildJob_command_def)
next
  case SERVEROK
  with assms show ?thesis by (auto simp: buildJob_command_def)
next
  case RESULT
  with assms show ?thesis by (auto simp: buildJob_command_def)
next
  case AGENTINFO
  with assms show ?thesis by (auto simp: buildJob_command_def)
qed

section \<open>Token authentication of returned jobs\<close>

text \<open>
  Claim C1 at the failing input: \<open>agentA\<close> returns a \<open>RESULT\<close> job with the output
  \<open>root\<close> for the tracked job, with the token \<open>tokenU\<close> where the recorded one is
  \<open>tokenT\<close>. \<open>checkJob\<close> returns the token error, but \<open>Handler\<close> drops the error
  of \<open>checkJob\<close> for every job of type \<open>RESULT\<close>: it returns \<open>nil\<close>, the record is
  moved to \<open>COMPLETE\<close> and stamped, two lines are written to the agent's log, and the
  output is broadcast at the success level.
\<close>

theorem Handler_result_token_mismatch_accepted:
  "job_Type (ex_job RESULT tokenU (Results ''root'' [])) = RESULT \<and>
   GetInfo (repo ex_state) ''jzVxqTyKIW'' = Inr ex_info \<and>
   job_Token (ex_job RESULT tokenU (Results ''root'' [])) \<noteq> info_token ex_info \<and>
   snd (Handler ex_state [ex_job RESULT tokenU (Results ''root'' [])]) = None \<and>
   GetInfo (repo (fst (Handler ex_state [ex_job RESULT tokenU (Results ''root'' [])])))
       ''jzVxqTyKIW'' =
     Inr (ex_info\<lparr>info_status := COMPLETE, info_completed := 1000\<rparr>) \<and>
   agent_log (fst (Handler ex_state [ex_job RESULT tokenU (Results ''root'' [])])) =
     [(agentA, MsgResultsForJob ''jzVxqTyKIW''), (agentA, MsgStdout ''root'')] \<and>
   broadcasts (fst (Handler ex_state [ex_job RESULT tokenU (Results ''root'' [])])) =
     [\<lparr>um_Level = Note, um_Time = 1000,
       um_Message = MsgResultsJob ''jzVxqTyKIW'' agentA 1000\<rparr>,
      \<lparr>um_Level = Success, um_Time = 1000, um_Message = Text ''root''\<rparr>]"
  by (simp add: handler_defs ex_defs)

section \<open>Result messages that belong to no tracked job\<close>

text \<open>
  Claim C3 at the failing input: a batch of \<open>agentA\<close> that starts with a \<open>RESULT\<close>
  message whose id is not in the repository, followed by the result of the tracked
  job. \<open>Handler\<close> looks the record up before it reaches the branch that tolerates
  result messages, and returns the look-up error: the batch is aborted at the stray
  message, nothing is logged and the tracked job is not completed.
\<close>

theorem Handler_stray_result_aborts:
  "Handler ex_state [ex_stray_result, ex_job RESULT tokenT (Results ''root'' [])] =
     (ex_state, Some (ErrHandlerGetInfo ''AAAAAAAAAA''))"
  by (simp add: handler_defs ex_defs)

section \<open>Broadcast submissions\<close>

text \<open>
  Claim C2 at the failing input: the command \<open>ifconfig\<close> submitted for the broadcast
  identifier when two agents are known. Two records are created, one per agent, with
  distinct ids and tokens, and two jobs are queued, one per agent. But \<open>buildJob\<close> copies
  the id and token of the new record to the job only when the job has none, and
  \<open>AddJobChannel\<close> passes the same job to every call: the job queued for the second
  agent carries the id and token of the first agent's record, not those of its own.
\<close>

theorem Add_broadcast_reuses_first_id_and_token:
  "(let r = Add ex_two_agents broadcast_id ''ifconfig'' []
    in snd (snd r) = None \<and>
       map (\<lambda>i. (info_agentID i, info_id i, info_token i)) (repo_infos (repo (fst r))) =
         [(agentA, ''job'', ''token''), (agentB, ''jobx'', ''tokenx'')] \<and>
       map (\<lambda>j. (job_AgentID j, job_ID j, job_Token j)) (repo_queue (repo (fst r))) =
         [(agentA, ''job'', ''token''), (agentB, ''job'', ''token'')])"
proof -
  define job where "job = new_job NATIVE (Command ''ifconfig'' [])"
  have sw: "Add_switch ex_two_agents ''ifconfig'' [] = Inr (job, [])"
    by (simp add: Add_switch_def job_def)
  have jf: "job_Type job = NATIVE" "job_Payload job = Command ''ifconfig'' []"
    "job_ID job = []" "job_Token job = uuid_Nil" "job_AgentID job = uuid_Nil"
    by (simp_all add: job_def new_job_def zero_job_def)
  define i1 where "i1 =
     \<lparr>info_id = ''job'', info_agentID = agentA, info_jobType = NATIVE, info_token = ''token'',
      info_command = Summary ''ifconfig '', info_status = CREATED, info_created = 1000,
      info_sent = 0, info_completed = 0\<rparr>"
  define i2 where "i2 = i1\<lparr>info_id := ''jobx'', info_agentID := agentB, info_token := ''tokenx''\<rparr>"
  define j1 where "j1 = job\<lparr>job_AgentID := agentA, job_Token := ''token'', job_ID := ''job''\<rparr>"
  define s1 where "s1 =
     ex_two_agents\<lparr>rand_ix := 1, repo := \<lparr>repo_queue = [j1], repo_infos = [i1]\<rparr>,
        agent_log := [(agentA, MsgCreatedJob NATIVE ''job'' (Summary ''ifconfig ''))]\<rparr>"
  define s2 where "s2 =
     s1\<lparr>rand_ix := Suc (Suc 0),
        repo := \<lparr>repo_queue = [j1, j1\<lparr>job_AgentID := agentB\<rparr>], repo_infos = [i1, i2]\<rparr>,
        agent_log := [(agentA, MsgCreatedJob NATIVE ''job'' (Summary ''ifconfig '')),
                      (agentB, MsgCreatedJob NATIVE ''job'' (Summary ''ifconfig ''))]\<rparr>"
  have b1: "buildJob ex_two_agents agentA job [] = (s1, j1, None)"
    by (simp add: buildJob_def Agent_def Exist_def buildJob_command_def command_summary_def
          truncate_args_def NewInfo_def repo_Add_def agent_Log_def Let_def jf
          ex_two_agents_def ex_state_def s1_def j1_def i1_def uuid_Nil_def agentA_def agentB_def)
  have j1f: "job_Type j1 = NATIVE" "job_Payload j1 = Command ''ifconfig'' []"
    "job_ID j1 = ''job''" "job_Token j1 = ''token''"
    by (simp_all add: j1_def jf)
  have s1f: "agents s1 = [agentA, agentB]" "rand s1 (Suc 0) = (''jobx'', ''tokenx'')" "rand_ix s1 = Suc 0"
    "now s1 = 1000" "repo s1 = \<lparr>repo_queue = [j1], repo_infos = [i1]\<rparr>"
    "agent_log s1 = [(agentA, MsgCreatedJob NATIVE ''job'' (Summary ''ifconfig ''))]"
    by (simp_all add: s1_def ex_two_agents_def ex_state_def)
  have b2: "buildJob s1 agentB j1 [] = (s2, j1\<lparr>job_AgentID := agentB\<rparr>, None)"
    by (simp add: buildJob_def Agent_def Exist_def buildJob_command_def command_summary_def
          truncate_args_def NewInfo_def repo_Add_def agent_Log_def Let_def j1f s1f
          s2_def i1_def i2_def uuid_Nil_def agentA_def agentB_def)
  have ag: "agents ex_two_agents = [agentA, agentB]"
    by (simp add: ex_two_agents_def)
  have "AddJobChannel ex_two_agents broadcast_id job [] =
          (s2, j1\<lparr>job_AgentID := agentB\<rparr>,
           [BroadcastHeader, CreatedFor ''job'' agentA 1000, CreatedFor ''job'' agentB 1000], None)"
    by (simp add: AddJobChannel_def ag b1 b2 j1f s1f s2_def)
  then have A: "Add ex_two_agents broadcast_id ''ifconfig'' [] =
          (s2, [BroadcastHeader, CreatedFor ''job'' agentA 1000, CreatedFor ''job'' agentB 1000], None)"
    by (simp add: Add_def sw)
  show ?thesis
    unfolding Let_def A
    by (simp add: s2_def i1_def i2_def j1_def jf)
qed

section \<open>Files sent by an agent\<close>




section \<open>File hashes in the argument vector\<close>




section \<open>Status transitions of handled jobs\<close>



section \<open>Handling a completed job again\<close>

text \<open>
  Claim C7 at the failing input: \<open>agentA\<close> returns the result of the tracked job, with
  the recorded token, and \<open>Handler\<close> completes the job; at a later time the same job is
  returned again. \<open>checkJob\<close> returns the previously-completed error, but \<open>Handler\<close>
  drops the error of \<open>checkJob\<close> for every job of type \<open>RESULT\<close>: the second call
  returns \<open>nil\<close> too, the result is logged and broadcast once more, and the stored record
  gets a new completion time.
\<close>

theorem Handler_completed_result_handled_again:
  "(let j = ex_job RESULT tokenT (Results ''root'' []);
        s1 = fst (Handler ex_state [j]);
        s2 = fst (Handler (s1\<lparr>now := 2000\<rparr>) [j])
    in snd (Handler ex_state [j]) = None \<and>
       GetInfo (repo s1) ''jzVxqTyKIW'' =
         Inr (ex_info\<lparr>info_status := COMPLETE, info_completed := 1000\<rparr>) \<and>
       job_Token j = info_token ex_info \<and>
       snd (Handler (s1\<lparr>now := 2000\<rparr>) [j]) = None \<and>
       agent_log s2 =
         agent_log s1 @ [(agentA, MsgResultsForJob ''jzVxqTyKIW''), (agentA, MsgStdout ''root'')] \<and>
       length (broadcasts s2) = length (broadcasts s1) + 2 \<and>
       GetInfo (repo s2) ''jzVxqTyKIW'' =
         Inr (ex_info\<lparr>info_status := COMPLETE, info_completed := 2000\<rparr>))"
proof -
  define j where "j = ex_job RESULT tokenT (Results ''root'' [])"
  define s1 where "s1 = fst (Handler ex_state [j])"
  define s2 where "s2 = fst (Handler (s1\<lparr>now := 2000\<rparr>) [j])"
  have jf: "job_AgentID j = agentA" "job_ID j = ''jzVxqTyKIW''" "job_Token j = tokenT"
    "job_Type j = RESULT" "job_Payload j = Results ''root'' []"
    by (simp_all add: j_def ex_job_def)
  have H1: "Handler ex_state [j] =
     (ex_state\<lparr>agent_log := [(agentA, MsgResultsForJob ''jzVxqTyKIW''), (agentA, MsgStdout ''root'')],
               broadcasts := [\<lparr>um_Level = Note, um_Time = 1000,
                                um_Message = MsgResultsJob ''jzVxqTyKIW'' agentA 1000\<rparr>,
                              \<lparr>um_Level = Success, um_Time = 1000, um_Message = Text ''root''\<rparr>],
               repo := \<lparr>repo_queue = [],
                        repo_infos = [ex_info\<lparr>info_status := COMPLETE, info_completed := 1000\<rparr>]\<rparr>\<rparr>,
      None)"
    by (simp add: handler_defs jf ex_state_def ex_info_def tokenT_def agentA_def)
  have p: "agents s1 = [agentA]"
    "repo s1 = \<lparr>repo_queue = [],
                repo_infos = [ex_info\<lparr>info_status := COMPLETE, info_completed := 1000\<rparr>]\<rparr>"
    "agent_log s1 = [(agentA, MsgResultsForJob ''jzVxqTyKIW''), (agentA, MsgStdout ''root'')]"
    "length (broadcasts s1) = 2"
    "DebugFlag s1 = False"
    unfolding s1_def H1 by (simp_all add: ex_state_def)
  have a: "snd (Handler ex_state [j]) = None" unfolding H1 by simp
  have b: "GetInfo (repo s1) ''jzVxqTyKIW'' =
         Inr (ex_info\<lparr>info_status := COMPLETE, info_completed := 1000\<rparr>)"
    by (simp add: p GetInfo_def ex_info_def)
  have c: "job_Token j = info_token ex_info" by (simp add: jf ex_info_def)
  have H2: "Handler (s1\<lparr>now := 2000\<rparr>) [j] =
     (s1\<lparr>now := 2000,
         agent_log := agent_log s1 @
            [(agentA, MsgResultsForJob ''jzVxqTyKIW''), (agentA, MsgStdout ''root'')],
         broadcasts := broadcasts s1 @
            [\<lparr>um_Level = Note, um_Time = 2000,
               um_Message = MsgResultsJob ''jzVxqTyKIW'' agentA 2000\<rparr>,
             \<lparr>um_Level = Success, um_Time = 2000, um_Message = Text ''root''\<rparr>],
         repo := \<lparr>repo_queue = [],
                  repo_infos = [ex_info\<lparr>info_status := COMPLETE, info_completed := 2000\<rparr>]\<rparr>\<rparr>,
      None)"
    by (simp add: handler_defs jf p ex_info_def tokenT_def agentA_def)
  have d: "snd (Handler (s1\<lparr>now := 2000\<rparr>) [j]) = None" unfolding H2 by simp
  have e: "agent_log s2 =
         agent_log s1 @ [(agentA, MsgResultsForJob ''jzVxqTyKIW''), (agentA, MsgStdout ''root'')]"
    unfolding s2_def H2 by simp
  have f: "length (broadcasts s2) = length (broadcasts s1) + 2"
    unfolding s2_def H2 by simp
  have g: "GetInfo (repo s2) ''jzVxqTyKIW'' =
         Inr (ex_info\<lparr>info_status := COMPLETE, info_completed := 2000\<rparr>)"
    unfolding s2_def H2 by (simp add: GetInfo_def ex_info_def)
  show ?thesis
    unfolding Let_def j_def[symmetric] s1_def[symmetric] s2_def[symmetric]
    using a b c d e f g by simp
qed

section \<open>Commands with too few arguments\<close>

text \<open>
  Claim C8 at the failing input: \<open>Add\<close> for the command \<open>download\<close> with an empty
  argument vector. The case reads \<open>jobArgs[0]\<close> without a test of the length, so the
  call does not return an error: it panics with an index out of range (nothing is
  queued or recorded). The command \<open>upload\<close>, which tests the length, returns an error
  on the same vector.
\<close>

theorem Add_download_without_arguments_panics:
  "Add ex_state agentA ''download'' [] =
     (ex_state, [], Some (Panic ''index out of range [0] with length 0'')) \<and>
   Add ex_state agentA ''upload'' [] = (ex_state, [], Some (ErrExpectedArgs ''upload'' 0))"
  by (simp add: Add_def Add_switch_def)

section \<open>Constructing the service\<close>

text \<open>
  Claim C9 at the failing input: \<open>NewJobService\<close> called twice from the start of the
  program. Both calls return the same service, but the statement that starts the
  \<open>socksJobs\<close> goroutine stands after the test of \<open>memoryService\<close>, not inside it: the
  second call starts a second worker on the same service.
\<close>

theorem NewJobService_second_call_starts_second_worker:
  "(let r1 = NewJobService proc0; r2 = NewJobService (fst r1)
    in snd r1 = snd r2 \<and>
       memoryService (fst r2) = Some (snd r1) \<and>
       socksJobs (fst r1) = [snd r1] \<and>
       socksJobs (fst r2) = [snd r1, snd r1])"
  by (simp add: NewJobService_def proc0_def Let_def)

section \<open>A job the repository refuses\<close>

text \<open>
  Claim C10: \<open>buildJob\<close> does not look at what the repository's \<open>Add\<close> returns. For a
  known agent and a job whose summary is computed, when the id of the new record is
  already in the repository (so that the insertion of the job and the record fails),
  \<open>buildJob\<close> leaves the repository as it was, still writes the \<open>Created job\<close> line to
  the agent's log and returns \<open>nil\<close>; \<open>AddJobChannel\<close> for that agent, and \<open>Add\<close> for
  a command that builds this job, return the \<open>Created job\<close> result text and no error.
\<close>

theorem buildJob_ignores_failed_insertion:
  assumes "Exist s agentID"
    and "buildJob_command s agentID (job\<lparr>job_AgentID := agentID\<rparr>) jobArgs = Inr (s1, command)"
    and "NewInfo s1 agentID (job_Type job) command = (jobInfo, s2)"
    and "info_id jobInfo \<in> set (map info_id (repo_infos (repo s2)))"
    and "job' = job\<lparr>job_AgentID := agentID,
                    job_Token := (if job_Token job = uuid_Nil then info_token jobInfo
                                  else job_Token job),
                    job_ID := (if job_ID job = [] then info_id jobInfo else job_ID job)\<rparr>"
    and "s' = agent_Log agentID (MsgCreatedJob (job_Type job) (job_ID job') command) s2"
  shows "repo_Add (repo s2) job' jobInfo = Inl (ErrDuplicateInfo (info_id jobInfo)) \<and>
         buildJob s agentID job jobArgs = (s', job', None) \<and>
         repo s' = repo s \<and>
         (agentID \<noteq> broadcast_id \<longrightarrow>
            AddJobChannel s agentID job jobArgs =
              (s', job', [CreatedFor (job_ID job') agentID (now s)], None) \<and>
            (Add_switch s jobType jobArgs0 = Inr (job, jobArgs) \<longrightarrow>
               Add s agentID jobType jobArgs0 =
                 (s', [CreatedFor (job_ID job') agentID (now s)], None)))"
proof -
  have fr: "repo s1 = repo s" "now s1 = now s"
    using buildJob_command_frame[OF assms(2)] by simp_all
  have fr2: "repo s2 = repo s" "now s2 = now s"
    using assms(3) fr by (auto simp: NewInfo_def)
  have dupA: "\<And>j. repo_Add (repo s2) j jobInfo = Inl (ErrDuplicateInfo (info_id jobInfo))"
    using assms(4) by (simp add: repo_Add_def)
  have dup: "repo_Add (repo s2) job' jobInfo = Inl (ErrDuplicateInfo (info_id jobInfo))"
    by (rule dupA)
  have b: "buildJob s agentID job jobArgs = (s', job', None)"
    using assms(1,2,3)
    by (cases "job_Token job = uuid_Nil"; cases "job_ID job = []")
       (simp_all add: buildJob_def Agent_def Let_def dupA assms(5,6))
  have r: "repo s' = repo s"
    using fr2 by (simp add: assms(6) agent_Log_def)
  have n: "now s' = now s"
    using fr2 by (simp add: assms(6) agent_Log_def)
  show ?thesis
    using dup b r n by (simp add: AddJobChannel_def Add_def)
qed

text \<open>
  Claim C10 on the server that draws the id of the tracked job again: the command
  \<open>ifconfig\<close> for \<open>agentA\<close> is reported as created under that id, the line is logged,
  and the repository still holds the one record it held before and no queued job.
\<close>

theorem buildJob_ignores_failed_insertion_witness:
  "Add ex_same_id agentA ''ifconfig'' [] =
     (agent_Log agentA (MsgCreatedJob NATIVE ''jzVxqTyKIW'' (Summary ''ifconfig ''))
        (ex_same_id\<lparr>rand_ix := 1\<rparr>),
      [CreatedFor ''jzVxqTyKIW'' agentA 1000], None) \<and>
   repo (fst (Add ex_same_id agentA ''ifconfig'' [])) =
     \<lparr>repo_queue = [], repo_infos = [ex_info]\<rparr>"
proof -
  define job where "job = new_job NATIVE (Command ''ifconfig'' [])"
  define jobInfo where "jobInfo =
     \<lparr>info_id = ''jzVxqTyKIW'', info_agentID = agentA, info_jobType = NATIVE,
      info_token = tokenU, info_command = Summary ''ifconfig '', info_status = CREATED,
      info_created = 1000, info_sent = 0, info_completed = 0\<rparr>"
  define job' where "job' = job\<lparr>job_AgentID := agentA, job_Token := tokenU, job_ID := ''jzVxqTyKIW''\<rparr>"
  define s' where "s' = agent_Log agentA (MsgCreatedJob NATIVE ''jzVxqTyKIW'' (Summary ''ifconfig ''))
        (ex_same_id\<lparr>rand_ix := 1\<rparr>)"
  have jf: "job_Type job = NATIVE" "job_Payload job = Command ''ifconfig'' []"
    "job_ID job = []" "job_Token job = uuid_Nil"
    by (simp_all add: job_def new_job_def zero_job_def)
  have h1: "Exist ex_same_id agentA"
    by (simp add: Exist_def ex_same_id_def ex_state_def)
  have h2: "buildJob_command ex_same_id agentA (job\<lparr>job_AgentID := agentA\<rparr>) [] =
              Inr (ex_same_id, Summary ''ifconfig '')"
    by (simp add: buildJob_command_def command_summary_def truncate_args_def jf)
  have h3: "NewInfo ex_same_id agentA (job_Type job) (Summary ''ifconfig '') =
              (jobInfo, ex_same_id\<lparr>rand_ix := 1\<rparr>)"
    by (simp add: NewInfo_def jobInfo_def jf ex_same_id_def ex_state_def)
  have h4: "info_id jobInfo \<in> set (map info_id (repo_infos (repo (ex_same_id\<lparr>rand_ix := 1\<rparr>))))"
    by (simp add: jobInfo_def ex_same_id_def ex_state_def ex_info_def)
  have h5: "job' = job\<lparr>job_AgentID := agentA,
                    job_Token := (if job_Token job = uuid_Nil then info_token jobInfo
                                  else job_Token job),
                    job_ID := (if job_ID job = [] then info_id jobInfo else job_ID job)\<rparr>"
    by (simp add: job'_def jf jobInfo_def)
  have h6: "s' = agent_Log agentA (MsgCreatedJob (job_Type job) (job_ID job') (Summary ''ifconfig ''))
                   (ex_same_id\<lparr>rand_ix := 1\<rparr>)"
    by (simp add: s'_def jf job'_def)
  have nb: "agentA \<noteq> broadcast_id" by (simp add: agentA_def broadcast_id_def)
  have sw: "Add_switch ex_same_id ''ifconfig'' [] = Inr (job, [])"
    by (simp add: Add_switch_def job_def)
  from buildJob_ignores_failed_insertion[OF h1 h2 h3 h4 h5 h6, of "''ifconfig''" "[]"] nb sw
  have A: "Add ex_same_id agentA ''ifconfig'' [] =
             (s', [CreatedFor (job_ID job') agentA (now ex_same_id)], None)"
    and R: "repo s' = repo ex_same_id"
    by simp_all
  have "repo ex_same_id = \<lparr>repo_queue = [], repo_infos = [ex_info]\<rparr>"
    by (simp add: ex_same_id_def ex_state_def)
  with A R show ?thesis
    by (simp add: s'_def job'_def ex_same_id_def ex_state_def)
qed

end
